theory Spec2Isabelle
  imports Complex_Main
begin

section \<open>The Sudoku game session of \<open>Game.jsx\<close>\<close>

text \<open>
  The component \<open>Game\<close> keeps the whole session in React state variables and changes them
  from event handlers. The model below is a record of those state variables and one HOL
  function per handler, each taking the state of the render in which the handler runs and
  returning the state after its updates have been applied.

  Numbers are JavaScript numbers holding integers: cells, counters and the timer are
  \<open>int\<close>. The score is multiplied by one of the factors 1, 1.5, 2 and 1.25 before
  \<open>Math.round\<close>; these products are exact in binary floating point for every score the
  counters can produce, so the factor is a \<open>rat\<close> and the product is computed exactly.
  A grid is an array of rows, \<open>int list list\<close>; the source documents \<open>board\<close> as
  "a 9x9 array where 0 = empty cell" and indexes it with \<open>0 \<le> i, j < 9\<close> only, and the
  reachable states below are loaded from 9x9 grids, where \<open>!\<close> is the array read.
\<close>

subsection \<open>Data\<close>

type_synonym grid = "int list list"

text \<open>The object passed to \<open>setFinalScore\<close>.\<close>

record final_score =
  total :: int
  base :: int
  mistakePenalty :: int
  hintPenalty :: int
  correctAnswers_fs :: int
  correctAnswerBonus :: int
  timeBonus :: int
  multiplier :: rat
  perfectBonus :: int
  difficulty_fs :: string
  time_fs :: int
  mistakes_fs :: int
  hints :: int

text \<open>The part of the API response that the component reads.\<close>

record api_data =
  data_puzzle :: grid
  data_solution :: grid

text \<open>
  The \<open>useState\<close> variables of the component that the handlers read or write;
  \<open>null\<close> is \<open>None\<close>. The modal and theme flags other than \<open>showScoreModal\<close> take no part
  in the game logic and are left out.

  The last field is not a state variable. \<open>calculateScore\<close> is memoised by
  \<open>useCallback\<close> with the dependency list \<open>[timer, mistakes, hintsUsed, difficulty]\<close>: React
  keeps the function object of an earlier render for as long as these four values are
  unchanged, and with it the \<open>correctAnswers\<close> of that render, which the list does not name.
  \<open>memoCorrectAnswers\<close> is that captured value. Every other callback lists all the state it
  reads, or updates a counter through \<open>prev => ...\<close>, and so sees the current state.
\<close>

record game =
  puzzle :: "grid option"
  solution :: "grid option"
  board :: "grid option"
  initialBoard :: "grid option"
  selectedCell :: "(nat \<times> nat) option"
  timer :: int
  isTimerRunning :: bool
  isWon :: bool
  mistakes :: int
  hintsUsed :: int
  correctAnswers :: int
  finalScore :: "final_score option"
  showScoreModal :: bool
  difficulty :: string
  highlightedNumber :: "int option"
  memoCorrectAnswers :: int

text \<open>The state of the first render: the initial values given to \<open>useState\<close>.\<close>

definition initial_state :: game where
  "initial_state =
     \<lparr>puzzle = None, solution = None, board = None, initialBoard = None,
      selectedCell = None, timer = 0, isTimerRunning = False, isWon = False,
      mistakes = 0, hintsUsed = 0, correctAnswers = 0, finalScore = None,
      showScoreModal = False, difficulty = ''random'', highlightedNumber = None,
      memoCorrectAnswers = 0\<rparr>"

subsection \<open>Loading a puzzle\<close>

text \<open>\<open>puzzleData.map(row => [...row])\<close>: a copy with the same rows and cells.\<close>

definition deepCopy :: "grid \<Rightarrow> grid" where
  "deepCopy g = map (\<lambda>row. map (\<lambda>x. x) row) g"

text \<open>
  The effect on \<open>data\<close> ("Initialize game when data is fetched"). It runs no check on the
  grids. It does not touch \<open>difficulty\<close> or \<open>highlightedNumber\<close>. The state it sets is
  rendered next, and the render reads the cells \<open>board[i][j]\<close> for \<open>0 \<le> i, j < 9\<close> (in
  \<open>isNumberComplete\<close>), which throws on a grid with fewer than nine rows: the definition
  gives the state the component shows for 9x9 grids, and is used on those only.
\<close>

definition initialize :: "api_data option \<Rightarrow> game \<Rightarrow> game" where
  "initialize data s =
     (case data of
        None \<Rightarrow> s
      | Some d \<Rightarrow>
          s\<lparr>puzzle := Some (data_puzzle d),
            solution := Some (data_solution d),
            board := Some (deepCopy (data_puzzle d)),
            initialBoard := Some (deepCopy (data_puzzle d)),
            selectedCell := None,
            timer := 0,
            isTimerRunning := True,
            isWon := False,
            mistakes := 0,
            hintsUsed := 0,
            correctAnswers := 0,
            finalScore := None,
            showScoreModal := False\<rparr>)"

text \<open>\<open>handleNewGameConfirm\<close>, with the difficulty picked in the modal as its argument.\<close>

definition handleNewGameConfirm :: "string \<Rightarrow> game \<Rightarrow> game" where
  "handleNewGameConfirm selectedDifficulty s =
     s\<lparr>difficulty := selectedDifficulty, highlightedNumber := None, showScoreModal := False\<rparr>"

subsection \<open>Scoring\<close>

text \<open>\<open>Math.round\<close>: the nearest integer, a half rounding up.\<close>

definition Math_round :: "rat \<Rightarrow> int" where
  "Math_round x = \<lfloor>x + 1 / 2\<rfloor>"

definition toLowerCase_char :: "char \<Rightarrow> char" where
  "toLowerCase_char c =
     (let n = (of_char c :: nat) in if 65 \<le> n \<and> n \<le> 90 then char_of (n + 32) else c)"

definition toLowerCase :: "string \<Rightarrow> string" where
  "toLowerCase str = map toLowerCase_char str"

definition difficultyMultipliers :: "(string \<times> rat) list" where
  "difficultyMultipliers =
     [(''easy'', 1), (''medium'', 3 / 2), (''hard'', 2), (''random'', 5 / 4)]"

text \<open>\<open>difficultyMultipliers[difficulty.toLowerCase()] || 1.0\<close>; no entry of the table is 0.\<close>

definition multiplierFor :: "string \<Rightarrow> rat" where
  "multiplierFor d =
     (case map_of difficultyMultipliers (toLowerCase d) of Some m \<Rightarrow> m | None \<Rightarrow> 1)"

definition calculateLiveScore :: "game \<Rightarrow> int" where
  "calculateLiveScore s =
     (let score = 10000 + correctAnswers s * 100 - mistakes s * 300 - hintsUsed s * 800;
          score = Math_round (of_int score * multiplierFor (difficulty s))
      in max 0 score)"

text \<open>
  \<open>calculateScore\<close>. Its free variables \<open>correctAnswers\<close>, \<open>mistakes\<close>, \<open>hintsUsed\<close>,
  \<open>timer\<close> and \<open>difficulty\<close> are those of the render \<open>env\<close> that created the function
  object; the two setters it calls update the current state \<open>s\<close>.
\<close>

definition calculateScore :: "game \<Rightarrow> game \<Rightarrow> game" where
  "calculateScore env s =
     (let BASE_SCORE = 10000;
          CORRECT_ANSWER_BONUS = 100;
          MISTAKE_PENALTY = 300;
          HINT_PENALTY = 800;
          PERFECT_BONUS = 2000;
          score = BASE_SCORE + correctAnswers env * CORRECT_ANSWER_BONUS
                    - mistakes env * MISTAKE_PENALTY - hintsUsed env * HINT_PENALTY;
          timeBonus' =
            (if timer env < 180 then 3000
             else if timer env < 300 then 2000
             else if timer env < 600 then 1000
             else if timer env < 900 then 500
             else 0);
          score = score + timeBonus';
          multiplier' = multiplierFor (difficulty env);
          score = Math_round (of_int score * multiplier');
          isPerfect = (mistakes env = 0 \<and> hintsUsed env = 0);
          score = (if isPerfect then score + PERFECT_BONUS else score);
          score = max 0 score
      in s\<lparr>finalScore := Some
             \<lparr>total = score,
              base = BASE_SCORE,
              mistakePenalty = mistakes env * MISTAKE_PENALTY,
              hintPenalty = hintsUsed env * HINT_PENALTY,
              correctAnswers_fs = correctAnswers env,
              correctAnswerBonus = correctAnswers env * CORRECT_ANSWER_BONUS,
              timeBonus = timeBonus',
              multiplier = multiplier',
              perfectBonus = (if isPerfect then PERFECT_BONUS else 0),
              difficulty_fs = difficulty env,
              time_fs = timer env,
              mistakes_fs = mistakes env,
              hints = hintsUsed env\<rparr>,
           showScoreModal := True\<rparr>)"

text \<open>
  The render that the memoised \<open>calculateScore\<close> of a state closes over: it agrees with the
  state on the four dependencies, since a change of any of them replaces the function
  object, and holds the captured \<open>correctAnswers\<close>.
\<close>

definition memoClosure :: "game \<Rightarrow> game" where
  "memoClosure s = s\<lparr>correctAnswers := memoCorrectAnswers s\<rparr>"

text \<open>
  What \<open>useCallback\<close> does in the render that follows a state \<open>prev\<close>: the function
  object is kept when the four dependencies are the same, and created anew, capturing the
  current \<open>correctAnswers\<close>, when one of them differs.
\<close>

definition rerender :: "game \<Rightarrow> game \<Rightarrow> game" where
  "rerender prev s =
     (if timer s = timer prev \<and> mistakes s = mistakes prev \<and> hintsUsed s = hintsUsed prev
         \<and> difficulty s = difficulty prev
      then s
      else s\<lparr>memoCorrectAnswers := correctAnswers s\<rparr>)"

text \<open>The effect "Calculate score when game is won", which calls the memoised function.\<close>

definition scoreEffect :: "game \<Rightarrow> game" where
  "scoreEffect s =
     (if isWon s \<and> finalScore s = None then calculateScore (memoClosure s) s else s)"

subsection \<open>Placing and clearing digits\<close>

text \<open>\<open>newBoard[row][col] = v\<close> on the copy of the board.\<close>

definition setCell :: "grid \<Rightarrow> nat \<Rightarrow> nat \<Rightarrow> int \<Rightarrow> grid" where
  "setCell b row col v = b[row := (b ! row)[col := v] ]"

text \<open>The two nested loops that compare a board with the solution, cell by cell.\<close>

definition isComplete :: "grid \<Rightarrow> grid \<Rightarrow> bool" where
  "isComplete newBoard sol =
     list_all (\<lambda>i. list_all (\<lambda>j. newBoard ! i ! j = sol ! i ! j) [0..<9]) [0..<9]"

text \<open>
  The callback that \<open>handleNumberInput\<close> hands to \<open>setTimeout\<close>. It closes over
  \<open>newBoard\<close> and \<open>solution\<close>; with \<open>solution\<close> null the read \<open>solution[i]\<close> throws and
  nothing is set.
\<close>

definition winCheck :: "grid \<Rightarrow> game \<Rightarrow> game" where
  "winCheck newBoard s =
     (case solution s of
        None \<Rightarrow> s
      | Some sol \<Rightarrow>
          if isComplete newBoard sol then s\<lparr>isWon := True, isTimerRunning := False\<rparr> else s)"

text \<open>
  \<open>handleNumberInput(value)\<close>, with the win check it schedules run at once: a command is
  complete, its win check included, before the next one is taken.
\<close>

definition handleNumberInput :: "int \<Rightarrow> game \<Rightarrow> game" where
  "handleNumberInput v s =
     (case (board s, selectedCell s, initialBoard s) of
        (Some b, Some (row, col), ini_opt) \<Rightarrow>
          if isWon s then s
          else (case ini_opt of
             None \<Rightarrow> s
           | Some ini \<Rightarrow>
               if ini ! row ! col \<noteq> 0 then s
               else
                 let wasCorrect =
                       (b ! row ! col \<noteq> 0 \<and>
                        (case solution s of None \<Rightarrow> False
                         | Some sol \<Rightarrow> sol ! row ! col = b ! row ! col));
                     newBoard = (if b ! row ! col = v then setCell b row col 0
                                 else setCell b row col v);
                     s1 = (if b ! row ! col = v then
                             (if wasCorrect \<and> ini ! row ! col = 0
                              then s\<lparr>correctAnswers := max 0 (correctAnswers s - 1)\<rparr>
                              else s)
                           else
                             (case solution s of
                                None \<Rightarrow> s
                              | Some sol \<Rightarrow>
                                  if v \<noteq> 0 then
                                    (if sol ! row ! col = v then
                                       (let wasEmpty = (b ! row ! col = 0);
                                            wasWrong = (b ! row ! col \<noteq> 0 \<and>
                                                        b ! row ! col \<noteq> sol ! row ! col)
                                        in if wasEmpty \<or> wasWrong
                                           then s\<lparr>correctAnswers := correctAnswers s + 1\<rparr>
                                           else s)
                                     else s\<lparr>mistakes := mistakes s + 1\<rparr>)
                                  else s));
                     s2 = s1\<lparr>board := Some newBoard,
                             highlightedNumber := (if v \<noteq> 0 then Some v else None)\<rparr>
                 in winCheck newBoard s2)
      | _ \<Rightarrow> s)"

subsection \<open>Hints\<close>

text \<open>The cells collected by the loops of \<open>handleHint\<close>, in the order they are pushed.\<close>

definition emptyCells :: "grid \<Rightarrow> grid \<Rightarrow> (nat \<times> nat) list" where
  "emptyCells b ini =
     concat (map (\<lambda>i. map (\<lambda>j. (i, j))
                        (filter (\<lambda>j. b ! i ! j = 0 \<and> ini ! i ! j = 0) [0..<9])) [0..<9])"

text \<open>
  \<open>handleHint\<close>. The argument \<open>k\<close> is the index
  \<open>Math.floor(Math.random() * emptyCells.length)\<close>, which lies below the length of the list.
  The handler sets no win flag and schedules no win check.
\<close>

definition handleHint :: "nat \<Rightarrow> game \<Rightarrow> game" where
  "handleHint k s =
     (case (board s, solution s, initialBoard s) of
        (Some b, Some sol, Some ini) \<Rightarrow>
          if isWon s then s
          else if hintsUsed s \<ge> 3 then s
          else if length (emptyCells b ini) = 0 then s
          else
            (case emptyCells b ini ! k of
               (row, col) \<Rightarrow>
                 let correctValue = sol ! row ! col;
                     newBoard = setCell b row col correctValue
                 in s\<lparr>board := Some newBoard,
                      hintsUsed := hintsUsed s + 1,
                      selectedCell := Some (row, col),
                      highlightedNumber := Some correctValue\<rparr>)
      | _ \<Rightarrow> s)"

subsection \<open>Selection, keyboard and clock\<close>

text \<open>The \<open>onClick\<close> of the grid cell at \<open>(rowIndex, colIndex)\<close>.\<close>

definition cellClick :: "nat \<Rightarrow> nat \<Rightarrow> game \<Rightarrow> game" where
  "cellClick rowIndex colIndex s =
     (case (board s, initialBoard s) of
        (Some b, Some ini) \<Rightarrow>
          let cell = b ! rowIndex ! colIndex;
              isInitial = (ini ! rowIndex ! colIndex \<noteq> 0)
          in if cell \<noteq> 0 then
               (if highlightedNumber s = Some cell
                then s\<lparr>highlightedNumber := None, selectedCell := None\<rparr>
                else s\<lparr>highlightedNumber := Some cell, selectedCell := None\<rparr>)
             else
               (if \<not> isInitial \<or> cell = 0
                then s\<lparr>highlightedNumber := None, selectedCell := Some (rowIndex, colIndex)\<rparr>
                else s\<lparr>highlightedNumber := None\<rparr>)
      | _ \<Rightarrow> s)"

text \<open>The document-level click handler, for a click outside every control.\<close>

definition clickOutside :: "game \<Rightarrow> game" where
  "clickOutside s = s\<lparr>selectedCell := None, highlightedNumber := None\<rparr>"

datatype key = Digit int | Backspace | ArrowUp | ArrowDown | ArrowLeft | ArrowRight

text \<open>\<open>handleKeyPress\<close>; \<open>Digit d\<close> is one of the keys "1" to "9" with \<open>d = parseInt(e.key)\<close>.\<close>

definition handleKeyPress :: "key \<Rightarrow> game \<Rightarrow> game" where
  "handleKeyPress k s =
     (case selectedCell s of
        None \<Rightarrow> s
      | Some (r, c) \<Rightarrow>
          if isWon s then s
          else (case k of
             Digit d \<Rightarrow> handleNumberInput d s
           | Backspace \<Rightarrow> handleNumberInput 0 s
           | ArrowUp \<Rightarrow> if r > 0 then s\<lparr>selectedCell := Some (r - 1, c)\<rparr> else s
           | ArrowDown \<Rightarrow> if r < 8 then s\<lparr>selectedCell := Some (r + 1, c)\<rparr> else s
           | ArrowLeft \<Rightarrow> if c > 0 then s\<lparr>selectedCell := Some (r, c - 1)\<rparr> else s
           | ArrowRight \<Rightarrow> if c < 8 then s\<lparr>selectedCell := Some (r, c + 1)\<rparr> else s))"

text \<open>One firing of the timer interval, which exists while the clock runs and the game is not won.\<close>

definition tick :: "game \<Rightarrow> game" where
  "tick s = (if isTimerRunning s \<and> \<not> isWon s then s\<lparr>timer := timer s + 1\<rparr> else s)"


text \<open>
  \<open>isNumberComplete(num)\<close>: every cell holding \<open>num\<close> matches the solution and there are
  nine of them. The number pad ignores a digit that is complete.
\<close>

definition isNumberComplete :: "int \<Rightarrow> game \<Rightarrow> bool" where
  "isNumberComplete num s =
     (case (board s, solution s) of
        (Some b, Some sol) \<Rightarrow>
          (let cells = concat (map (\<lambda>i. map (\<lambda>j. (i, j))
                                 (filter (\<lambda>j. b ! i ! j = num) [0..<9])) [0..<9])
           in if list_ex (\<lambda>(i, j). sol ! i ! j \<noteq> num) cells then False
              else length cells = 9)
      | _ \<Rightarrow> False)"

text \<open>The \<open>onClick\<close> of the number pad button \<open>num\<close> and of the clear button.\<close>

definition numberButton :: "int \<Rightarrow> game \<Rightarrow> game" where
  "numberButton num s =
     (if isWon s \<or> isNumberComplete num s then s
      else if selectedCell s \<noteq> None then handleNumberInput num s
      else s)"

definition clearButton :: "game \<Rightarrow> game" where
  "clearButton s = (if selectedCell s \<noteq> None then handleNumberInput 0 s else s)"

subsection \<open>Commands and sessions\<close>

text \<open>
  Every event the component reacts to. After the state updates of an event React renders
  again, which keeps or replaces the memoised \<open>calculateScore\<close>, and runs the score effect.
\<close>

datatype command =
    Key key
  | NumberButton int
  | ClearButton
  | HintButton nat
  | CellClick nat nat
  | ClickOutside
  | Tick
  | NewGameConfirm string
  | DataLoaded api_data

fun exec :: "command \<Rightarrow> game \<Rightarrow> game" where
  "exec (Key k) s = handleKeyPress k s"
| "exec (NumberButton num) s = numberButton num s"
| "exec ClearButton s = clearButton s"
| "exec (HintButton k) s = handleHint k s"
| "exec (CellClick r c) s = cellClick r c s"
| "exec ClickOutside s = clickOutside s"
| "exec Tick s = tick s"
| "exec (NewGameConfirm d) s = handleNewGameConfirm d s"
| "exec (DataLoaded d) s = initialize (Some d) s"

definition run :: "command \<Rightarrow> game \<Rightarrow> game" where
  "run c s = scoreEffect (rerender s (exec c s))"

text \<open>The commands of the session engine, by the handler each one reaches.\<close>

definition placeDigit :: "int \<Rightarrow> game \<Rightarrow> game" where
  "placeDigit d s = run (Key (Digit d)) s"

definition clearCell :: "game \<Rightarrow> game" where
  "clearCell s = run (Key Backspace) s"

definition requestHint :: "nat \<Rightarrow> game \<Rightarrow> game" where
  "requestHint k s = run (HintButton k) s"

text \<open>The cells a hint may reveal in a state.\<close>

definition eligibleCells :: "game \<Rightarrow> (nat \<times> nat) list" where
  "eligibleCells s =
     (case (board s, initialBoard s) of
        (Some b, Some ini) \<Rightarrow> emptyCells b ini
      | _ \<Rightarrow> [])"

definition grid9 :: "grid \<Rightarrow> bool" where
  "grid9 g = (length g = 9 \<and> list_all (\<lambda>row. length row = 9) g)"

definition isDigitKey :: "key \<Rightarrow> bool" where
  "isDigitKey k = (case k of Digit d \<Rightarrow> 1 \<le> d \<and> d \<le> 9 | _ \<Rightarrow> True)"

text \<open>
  The arguments a command can carry: digit keys and buttons run from 1 to 9, a click hits
  one of the 81 rendered cells, the random index of a hint lies inside the list of
  eligible cells, the difficulty is one of the four buttons of the modal, and the API
  delivers 9x9 grids.
\<close>

fun valid :: "command \<Rightarrow> game \<Rightarrow> bool" where
  "valid (Key k) s = isDigitKey k"
| "valid (NumberButton num) s = (1 \<le> num \<and> num \<le> 9)"
| "valid (HintButton k) s = (eligibleCells s = [] \<or> k < length (eligibleCells s))"
| "valid (CellClick r c) s = (r < 9 \<and> c < 9)"
| "valid (NewGameConfirm d) s = (d \<in> set [''random'', ''easy'', ''medium'', ''hard''])"
| "valid (DataLoaded d) s = (grid9 (data_puzzle d) \<and> grid9 (data_solution d))"
| "valid c s = True"

text \<open>A sequence of commands, each run on the state the previous one left.\<close>

fun runs :: "command list \<Rightarrow> game \<Rightarrow> game" where
  "runs [] s = s"
| "runs (c # cs) s = runs cs (run c s)"

fun all_valid :: "command list \<Rightarrow> game \<Rightarrow> bool" where
  "all_valid [] s = True"
| "all_valid (c # cs) s = (valid c s \<and> all_valid cs (run c s))"

text \<open>A session lasts until the next puzzle is loaded.\<close>

fun in_session :: "command \<Rightarrow> bool" where
  "in_session (DataLoaded d) = False"
| "in_session c = True"

subsection \<open>Example grids\<close>

definition demoSolution :: grid where
  "demoSolution =
     [ [5, 3, 4, 6, 7, 8, 9, 1, 2],
      [6, 7, 2, 1, 9, 5, 3, 4, 8],
      [1, 9, 8, 3, 4, 2, 5, 6, 7],
      [8, 5, 9, 7, 6, 1, 4, 2, 3],
      [4, 2, 6, 8, 5, 3, 7, 9, 1],
      [7, 1, 3, 9, 2, 4, 8, 5, 6],
      [9, 6, 1, 5, 3, 7, 2, 8, 4],
      [2, 8, 7, 4, 1, 9, 6, 3, 5],
      [3, 4, 5, 2, 8, 6, 1, 7, 9] ]"

text \<open>The solution with the cell (0, 2) left empty.\<close>

definition demoPuzzle1 :: grid where
  "demoPuzzle1 =
     [ [5, 3, 0, 6, 7, 8, 9, 1, 2],
      [6, 7, 2, 1, 9, 5, 3, 4, 8],
      [1, 9, 8, 3, 4, 2, 5, 6, 7],
      [8, 5, 9, 7, 6, 1, 4, 2, 3],
      [4, 2, 6, 8, 5, 3, 7, 9, 1],
      [7, 1, 3, 9, 2, 4, 8, 5, 6],
      [9, 6, 1, 5, 3, 7, 2, 8, 4],
      [2, 8, 7, 4, 1, 9, 6, 3, 5],
      [3, 4, 5, 2, 8, 6, 1, 7, 9] ]"

text \<open>The solution with the cells (0, 2) and (8, 8) left empty.\<close>

definition demoPuzzle2 :: grid where
  "demoPuzzle2 =
     [ [5, 3, 0, 6, 7, 8, 9, 1, 2],
      [6, 7, 2, 1, 9, 5, 3, 4, 8],
      [1, 9, 8, 3, 4, 2, 5, 6, 7],
      [8, 5, 9, 7, 6, 1, 4, 2, 3],
      [4, 2, 6, 8, 5, 3, 7, 9, 1],
      [7, 1, 3, 9, 2, 4, 8, 5, 6],
      [9, 6, 1, 5, 3, 7, 2, 8, 4],
      [2, 8, 7, 4, 1, 9, 6, 3, 5],
      [3, 4, 5, 2, 8, 6, 1, 7, 0] ]"

text \<open>As \<open>demoPuzzle2\<close>, but the prefilled cell (0, 0) holds 9 where the solution has 5.\<close>

definition badPuzzle :: grid where
  "badPuzzle =
     [ [9, 3, 0, 6, 7, 8, 9, 1, 2],
      [6, 7, 2, 1, 9, 5, 3, 4, 8],
      [1, 9, 8, 3, 4, 2, 5, 6, 7],
      [8, 5, 9, 7, 6, 1, 4, 2, 3],
      [4, 2, 6, 8, 5, 3, 7, 9, 1],
      [7, 1, 3, 9, 2, 4, 8, 5, 6],
      [9, 6, 1, 5, 3, 7, 2, 8, 4],
      [2, 8, 7, 4, 1, 9, 6, 3, 5],
      [3, 4, 5, 2, 8, 6, 1, 7, 0] ]"

definition demoData1 :: api_data where
  "demoData1 = \<lparr>data_puzzle = demoPuzzle1, data_solution = demoSolution\<rparr>"

definition demoData2 :: api_data where
  "demoData2 = \<lparr>data_puzzle = demoPuzzle2, data_solution = demoSolution\<rparr>"

definition badData :: api_data where
  "badData = \<lparr>data_puzzle = badPuzzle, data_solution = demoSolution\<rparr>"


subsection \<open>The specification's wording of the score and of a valid puzzle\<close>

text \<open>
  The final score as the specification words it: the first tier of the time table that
  the elapsed seconds fall under, the multiplier of the difficulty table, and the flat
  perfect-game bonus added after the product is rounded.
\<close>

definition spec_timeBonus :: "int \<Rightarrow> int" where
  "spec_timeBonus t =
     (case find (\<lambda>(bound, bonus). t < bound)
             [(180, 3000), (300, 2000), (600, 1000), (900, 500)] of
        Some (bound, bonus) \<Rightarrow> bonus
      | None \<Rightarrow> 0)"

definition spec_multiplier :: "string \<Rightarrow> rat" where
  "spec_multiplier d =
     (if d = ''easy'' then 1
      else if d = ''medium'' then 3 / 2
      else if d = ''hard'' then 2
      else if d = ''random'' then 5 / 4
      else 1)"

definition spec_perfectBonus :: "int \<Rightarrow> int \<Rightarrow> int" where
  "spec_perfectBonus m h = (if m = 0 \<and> h = 0 then 2000 else 0)"

definition spec_finalScore :: "int \<Rightarrow> int \<Rightarrow> int \<Rightarrow> int \<Rightarrow> string \<Rightarrow> int" where
  "spec_finalScore ca m h t d =
     max 0 (Math_round (of_int (10000 + ca * 100 - m * 300 - h * 800 + spec_timeBonus t)
                          * spec_multiplier d)
            + spec_perfectBonus m h)"

text \<open>
  The input the specification lets \<open>initialize\<close> accept: two 9x9 grids, the puzzle with
  digits from 0 to 9 and the solution from 1 to 9, the puzzle agreeing with the solution
  wherever it is not 0.
\<close>

definition spec_valid :: "grid \<Rightarrow> grid \<Rightarrow> bool" where
  "spec_valid p sol =
     (grid9 p \<and> grid9 sol
      \<and> list_all (list_all (\<lambda>x. 0 \<le> x \<and> x \<le> 9)) p
      \<and> list_all (list_all (\<lambda>x. 1 \<le> x \<and> x \<le> 9)) sol
      \<and> list_all (\<lambda>i. list_all (\<lambda>j. p ! i ! j = 0 \<or> p ! i ! j = sol ! i ! j) [0..<9]) [0..<9])"

subsection \<open>Invariants\<close>

text \<open>
  Every prefilled cell, one that is not 0 in the initial board, holds the digit of the puzzle.
\<close>

definition prefilled_intact :: "game \<Rightarrow> bool" where
  "prefilled_intact s =
     (case (puzzle s, initialBoard s, board s) of
        (Some p, Some ini, Some b) \<Rightarrow>
          list_all (\<lambda>i. list_all (\<lambda>j. ini ! i ! j \<noteq> 0 \<longrightarrow> b ! i ! j = p ! i ! j) [0..<9]) [0..<9]
      | _ \<Rightarrow> True)"

text \<open>
  From \<open>s\<close> to \<open>s'\<close> the puzzle and the initial board stay and no prefilled cell of
  the board changes.
\<close>

definition prefilled_kept :: "game \<Rightarrow> game \<Rightarrow> bool" where
  "prefilled_kept s s' =
     (puzzle s' = puzzle s \<and> initialBoard s' = initialBoard s \<and>
      (case (initialBoard s, board s) of
         (Some ini, Some b) \<Rightarrow>
           (case board s' of
              Some b' \<Rightarrow>
                list_all (\<lambda>i. list_all (\<lambda>j. ini ! i ! j \<noteq> 0 \<longrightarrow> b' ! i ! j = b ! i ! j) [0..<9]) [0..<9]
            | None \<Rightarrow> False)
       | _ \<Rightarrow> board s' = board s))"

text \<open>The counters are not negative and at most three hints are used.\<close>

definition counters_ok :: "game \<Rightarrow> bool" where
  "counters_ok s =
     (0 \<le> mistakes s \<and> 0 \<le> correctAnswers s \<and> 0 \<le> hintsUsed s \<and> hintsUsed s \<le> 3)"

text \<open>A final score is stored exactly when the game is won.\<close>

definition score_ok :: "game \<Rightarrow> bool" where
  "score_ok s = (isWon s = (finalScore s \<noteq> None))"

text \<open>
  The grids are loaded together and are 9x9, the initial board is the puzzle, and the
  selected cell lies on the grid.
\<close>

definition well_formed :: "game \<Rightarrow> bool" where
  "well_formed s =
     ((case selectedCell s of None \<Rightarrow> True | Some (r, c) \<Rightarrow> r < 9 \<and> c < 9) \<and>
      (case (puzzle s, solution s, board s, initialBoard s) of
         (None, None, None, None) \<Rightarrow> True
       | (Some p, Some sol, Some b, Some ini) \<Rightarrow> grid9 p \<and> grid9 sol \<and> grid9 b \<and> ini = p
       | _ \<Rightarrow> False))"

text \<open>A step that leaves the grids, the counters, the win flag and the final score alone.\<close>

definition view_change :: "game \<Rightarrow> game \<Rightarrow> bool" where
  "view_change s s' =
     (puzzle s' = puzzle s \<and> solution s' = solution s \<and> board s' = board s \<and>
      initialBoard s' = initialBoard s \<and> isWon s' = isWon s \<and> mistakes s' = mistakes s \<and>
      hintsUsed s' = hintsUsed s \<and> correctAnswers s' = correctAnswers s \<and>
      finalScore s' = finalScore s)"

text \<open>
  From \<open>s\<close> to \<open>s'\<close> the game stays won with the same board, counters and final score.
\<close>

definition frozen :: "game \<Rightarrow> game \<Rightarrow> bool" where
  "frozen s s' =
     (isWon s' \<and> board s' = board s \<and> mistakes s' = mistakes s \<and>
      correctAnswers s' = correctAnswers s \<and> hintsUsed s' = hintsUsed s \<and>
      finalScore s' = finalScore s)"

subsection \<open>Further example sessions\<close>

text \<open>The solution with the cells (0, 2), (4, 4), (8, 0) and (8, 8) left empty.\<close>

definition demoPuzzle4 :: grid where
  "demoPuzzle4 =
     [ [5, 3, 0, 6, 7, 8, 9, 1, 2],
      [6, 7, 2, 1, 9, 5, 3, 4, 8],
      [1, 9, 8, 3, 4, 2, 5, 6, 7],
      [8, 5, 9, 7, 6, 1, 4, 2, 3],
      [4, 2, 6, 8, 0, 3, 7, 9, 1],
      [7, 1, 3, 9, 2, 4, 8, 5, 6],
      [9, 6, 1, 5, 3, 7, 2, 8, 4],
      [2, 8, 7, 4, 1, 9, 6, 3, 5],
      [0, 4, 5, 2, 8, 6, 1, 7, 0] ]"

definition demoData4 :: api_data where
  "demoData4 = \<lparr>data_puzzle = demoPuzzle4, data_solution = demoSolution\<rparr>"

text \<open>
  \<open>demoPuzzle1\<close> loaded, one tick of the clock, the last empty cell selected and filled
  with its digit.
\<close>

definition staleCommands :: "command list" where
  "staleCommands = [DataLoaded demoData1, Tick, CellClick 0 2, Key (Digit 4)]"

text \<open>
  A session that was played and won: a hint on the cell (8, 8), two ticks, a wrong digit
  in the cell (0, 2), then the right one.
\<close>

definition scoredState :: game where
  "scoredState =
     runs [DataLoaded demoData2, HintButton 1, Tick, Tick, CellClick 0 2, Key (Digit 7),
           Key (Digit 4)] initial_state"

text \<open>The last empty cell of \<open>demoPuzzle1\<close> selected and filled with its digit.\<close>

definition wonCommands :: "command list" where
  "wonCommands = [DataLoaded demoData1, CellClick 0 2, Key (Digit 4)]"

text \<open>Commands of every kind, tried after the win.\<close>

definition laterCommands :: "command list" where
  "laterCommands = [Tick, Key (Digit 4), Key Backspace, HintButton 0, CellClick 3 3, ClearButton]"

text \<open>Three hints on \<open>demoPuzzle4\<close>, which leave the cell (4, 4) empty.\<close>

definition hintCommands :: "command list" where
  "hintCommands = [DataLoaded demoData4, HintButton 3, HintButton 0, HintButton 1]"

text \<open>
  A wrong digit in the empty cell (0, 2), then the selection moved by the arrow key onto
  the prefilled cell (0, 1).
\<close>

definition demoCommands :: "command list" where
  "demoCommands = [DataLoaded demoData2, CellClick 0 2, Key (Digit 7), Key ArrowLeft]"

text \<open>\<open>demoPuzzle2\<close> loaded and its empty cell (0, 2) selected.\<close>

definition selectedCommands :: "command list" where
  "selectedCommands = [DataLoaded demoData2, CellClick 0 2]"

text \<open>The same, and the solution's digit 4 placed in the cell.\<close>

definition correctCommands :: "command list" where
  "correctCommands = [DataLoaded demoData2, CellClick 0 2, Key (Digit 4)]"

section \<open>Properties\<close>

subsection \<open>Scoring\<close>

lemma multiplierFor_spec: "multiplierFor d = spec_multiplier (toLowerCase d)"
  by (simp add: multiplierFor_def difficultyMultipliers_def spec_multiplier_def)

lemma timeBonus_spec:
  "(if t < 180 then 3000 else if t < 300 then 2000 else if t < 600 then 1000
    else if t < 900 then 500 else 0) = spec_timeBonus (t::int)"
  by (simp add: spec_timeBonus_def)

lemma Math_round_of_int: "Math_round (of_int n) = n"
  unfolding Math_round_def by linarith

lemma Math_round_double: "Math_round (of_int n * 2) = 2 * n"
proof -
  have "of_int n * (2::rat) = of_int (2 * n)" by simp
  then show ?thesis by (simp only: Math_round_of_int)
qed

lemma toLowerCase_hard: "toLowerCase ''hard'' = ''hard''"
  by code_simp

text \<open>
  What \<open>calculateScore\<close> stores, in terms of the values it reads: the total is the
  specification's final score of those values, with the specification's time bonus,
  multiplier (the difficulty looked up in lower case) and perfect bonus, and the counters
  recorded in the breakdown are the ones the total was computed from. On hard difficulty
  with 2 mistakes, 1 hint and 700 seconds the total is
  \<open>round((10000 + correctAnswers * 100 - 600 - 800 + 500) * 2)\<close>.
\<close>

lemma calculateScore_formula:
  "map_option total (finalScore (calculateScore env s)) =
     Some (spec_finalScore (correctAnswers env) (mistakes env) (hintsUsed env) (timer env)
             (toLowerCase (difficulty env)))
   \<and> map_option timeBonus (finalScore (calculateScore env s)) = Some (spec_timeBonus (timer env))
   \<and> map_option multiplier (finalScore (calculateScore env s)) =
       Some (spec_multiplier (toLowerCase (difficulty env)))
   \<and> map_option perfectBonus (finalScore (calculateScore env s)) =
       Some (spec_perfectBonus (mistakes env) (hintsUsed env))
   \<and> map_option correctAnswers_fs (finalScore (calculateScore env s)) = Some (correctAnswers env)
   \<and> (difficulty env = ''hard'' \<and> mistakes env = 2 \<and> hintsUsed env = 1 \<and> timer env = 700
        \<and> 0 \<le> correctAnswers env \<longrightarrow>
      map_option total (finalScore (calculateScore env s)) =
        Some (Math_round (of_int (10000 + correctAnswers env * 100 - 600 - 800 + 500) * 2)))"
proof -
  have tot: "map_option total (finalScore (calculateScore env s)) =
     Some (spec_finalScore (correctAnswers env) (mistakes env) (hintsUsed env) (timer env)
             (toLowerCase (difficulty env)))"
    by (simp add: calculateScore_def Let_def spec_finalScore_def spec_perfectBonus_def
          multiplierFor_spec timeBonus_spec)
  have tb: "map_option timeBonus (finalScore (calculateScore env s)) =
              Some (spec_timeBonus (timer env))"
    by (simp add: calculateScore_def Let_def timeBonus_spec)
  have mu: "map_option multiplier (finalScore (calculateScore env s)) =
       Some (spec_multiplier (toLowerCase (difficulty env)))"
    by (simp add: calculateScore_def Let_def multiplierFor_spec)
  have pb: "map_option perfectBonus (finalScore (calculateScore env s)) =
       Some (spec_perfectBonus (mistakes env) (hintsUsed env))"
    by (simp add: calculateScore_def Let_def spec_perfectBonus_def)
  have ca: "map_option correctAnswers_fs (finalScore (calculateScore env s)) =
              Some (correctAnswers env)"
    by (simp add: calculateScore_def Let_def)
  have sb: "map_option total (finalScore (calculateScore env s)) =
        Some (Math_round (of_int (10000 + correctAnswers env * 100 - 600 - 800 + 500) * 2))"
    if h: "difficulty env = ''hard''" "mistakes env = 2" "hintsUsed env = 1" "timer env = 700"
       "0 \<le> correctAnswers env"
  proof -
    have "spec_finalScore (correctAnswers env) 2 1 700 ''hard'' =
            max 0 (Math_round (of_int (10000 + correctAnswers env * 100 - 600 - 800 + 500) * 2))"
      by (simp add: spec_finalScore_def spec_timeBonus_def spec_multiplier_def
            spec_perfectBonus_def)
    also have "\<dots> = Math_round (of_int (10000 + correctAnswers env * 100 - 600 - 800 + 500) * 2)"
      using h(5) by (simp only: Math_round_double) simp
    finally show ?thesis using tot h by (simp add: toLowerCase_hard)
  qed
  from tot tb mu pb ca sb show ?thesis by blast
qed

text \<open>
  C5. The final score of a session does not follow the formula on the session's counters.
  The puzzle is loaded, the clock ticks once, the last empty cell is selected and its
  digit placed: the game is won with \<open>correctAnswers = 1\<close>, no mistake, no hint, one second
  and difficulty random, for which the formula gives
  \<open>round((10000 + 100 + 3000) * 1.25) + 2000 = 18375\<close>. The placement changed none of the
  four dependencies of the memoised \<open>calculateScore\<close>, so the function object the win
  effect calls is the one created at the tick, when \<open>correctAnswers\<close> was 0: the stored
  total is \<open>round((10000 + 3000) * 1.25) + 2000 = 18250\<close> and the breakdown records 0
  correct answers.
\<close>

theorem final_score_misses_last_correct_answer:
  "isWon (runs staleCommands initial_state)
   \<and> correctAnswers (runs staleCommands initial_state) = 1
   \<and> mistakes (runs staleCommands initial_state) = 0
   \<and> hintsUsed (runs staleCommands initial_state) = 0
   \<and> timer (runs staleCommands initial_state) = 1
   \<and> difficulty (runs staleCommands initial_state) = ''random''
   \<and> spec_finalScore 1 0 0 1 ''random'' = 18375
   \<and> map_option total (finalScore (runs staleCommands initial_state)) = Some 18250
   \<and> map_option correctAnswers_fs (finalScore (runs staleCommands initial_state)) = Some 0"
  by code_simp

subsection \<open>Loading\<close>

lemma deepCopy_id: "deepCopy g = g"
  by (simp add: deepCopy_def)

text \<open>
  C4, as stated, fails: \<open>badData\<close> is a pair of 9x9 grids whose prefilled cell (0, 0)
  holds 9 where the solution has 5, so the specification's validation rejects it; the
  effect accepts it, replaces the session and starts the clock.
\<close>

theorem initialize_accepts_inconsistent_puzzle:
  "\<not> spec_valid (data_puzzle badData) (data_solution badData)
   \<and> initialize (Some badData) initial_state \<noteq> initial_state
   \<and> board (initialize (Some badData) initial_state) = Some badPuzzle
   \<and> isTimerRunning (initialize (Some badData) initial_state)"
  by code_simp

text \<open>
  C4, amended. For 9x9 grids the effect never rejects: whatever digits the two grids
  hold, and whether or not the puzzle agrees with the solution, it stores the puzzle and
  the solution, sets the board and the initial board to copies of the puzzle, clears the
  selected cell and the final score, resets the timer and the three counters to 0, starts
  the clock and clears the win flag. The difficulty is kept.
\<close>

theorem initialize_resets:
  assumes "grid9 (data_puzzle d)" and "grid9 (data_solution d)"
  shows "puzzle (initialize (Some d) s) = Some (data_puzzle d)
   \<and> solution (initialize (Some d) s) = Some (data_solution d)
   \<and> board (initialize (Some d) s) = Some (data_puzzle d)
   \<and> initialBoard (initialize (Some d) s) = Some (data_puzzle d)
   \<and> selectedCell (initialize (Some d) s) = None
   \<and> timer (initialize (Some d) s) = 0
   \<and> isTimerRunning (initialize (Some d) s) = True
   \<and> isWon (initialize (Some d) s) = False
   \<and> mistakes (initialize (Some d) s) = 0
   \<and> hintsUsed (initialize (Some d) s) = 0
   \<and> correctAnswers (initialize (Some d) s) = 0
   \<and> finalScore (initialize (Some d) s) = None
   \<and> difficulty (initialize (Some d) s) = difficulty s"
  by (simp add: initialize_def deepCopy_id)

theorem initialize_resets_witness:
  "grid9 (data_puzzle badData) \<and> grid9 (data_solution badData)
   \<and> isWon scoredState \<and> mistakes scoredState = 1 \<and> hintsUsed scoredState = 1
   \<and> correctAnswers scoredState = 1 \<and> timer scoredState = 2
   \<and> board (initialize (Some badData) scoredState) = Some badPuzzle
   \<and> initialBoard (initialize (Some badData) scoredState) = Some badPuzzle
   \<and> solution (initialize (Some badData) scoredState) = Some demoSolution
   \<and> mistakes (initialize (Some badData) scoredState) = 0
   \<and> hintsUsed (initialize (Some badData) scoredState) = 0
   \<and> correctAnswers (initialize (Some badData) scoredState) = 0
   \<and> timer (initialize (Some badData) scoredState) = 0
   \<and> isWon (initialize (Some badData) scoredState) = False
   \<and> finalScore (initialize (Some badData) scoredState) = None"
proof -
  have h1: "grid9 (data_puzzle badData)" by code_simp
  have h2: "grid9 (data_solution badData)" by code_simp
  have h3: "data_puzzle badData = badPuzzle" "data_solution badData = demoSolution"
    by (simp_all add: badData_def)
  have h4: "isWon scoredState \<and> mistakes scoredState = 1 \<and> hintsUsed scoredState = 1
            \<and> correctAnswers scoredState = 1 \<and> timer scoredState = 2"
    by code_simp
  from initialize_resets [OF h1 h2, of scoredState] h1 h2 h3 h4 show ?thesis by simp
qed

subsection \<open>Hints and the win check\<close>

text \<open>
  C3. The code does not run a win check after a hint. With one cell left, the only
  eligible one, the hint fills it and the board equals the solution, yet the game is not
  won, the clock still runs and no score is computed; placing the same digit by hand on
  the same board wins.
\<close>

theorem hint_fills_last_cell_without_win:
  "board (runs [DataLoaded demoData1] initial_state) = Some demoPuzzle1
   \<and> eligibleCells (runs [DataLoaded demoData1] initial_state) = [(0, 2)]
   \<and> board (requestHint 0 (runs [DataLoaded demoData1] initial_state)) = Some demoSolution
   \<and> solution (requestHint 0 (runs [DataLoaded demoData1] initial_state)) = Some demoSolution
   \<and> isWon (requestHint 0 (runs [DataLoaded demoData1] initial_state)) = False
   \<and> isTimerRunning (requestHint 0 (runs [DataLoaded demoData1] initial_state)) = True
   \<and> finalScore (requestHint 0 (runs [DataLoaded demoData1] initial_state)) = None
   \<and> isWon (placeDigit 4 (runs [DataLoaded demoData1, CellClick 0 2] initial_state)) = True"
  by code_simp

subsection \<open>Frames of the handlers\<close>

lemma setCell_other: "(i, j) \<noteq> (r, c) \<Longrightarrow> setCell b r c v ! i ! j = b ! i ! j"
proof (cases "i = r")
  case False
  then show ?thesis by (simp add: setCell_def)
next
  case True
  assume "(i, j) \<noteq> (r, c)"
  with True have jc: "j \<noteq> c" by simp
  show ?thesis
  proof (cases "r < length b")
    case True
    with \<open>i = r\<close> jc show ?thesis by (simp add: setCell_def)
  next
    case False
    then show ?thesis by (simp add: setCell_def not_less list_update_beyond)
  qed
qed

lemma setCell_same: "r < length b \<Longrightarrow> c < length (b ! r) \<Longrightarrow> setCell b r c v ! r ! c = v"
  by (simp add: setCell_def)

lemma grid9_setCell: "grid9 b \<Longrightarrow> grid9 (setCell b r c v)"
proof (cases "r < length b")
  case True
  assume g: "grid9 b"
  from g True have "length (b ! r) = 9"
    using nth_mem [of r b] by (auto simp: grid9_def list_all_iff)
  with g show ?thesis
    by (auto simp: grid9_def setCell_def list_all_iff dest!: set_update_subset_insert [THEN subsetD])
next
  case False
  assume "grid9 b"
  with False show ?thesis by (simp add: setCell_def not_less list_update_beyond)
qed

lemma grid9_nth: "grid9 b \<Longrightarrow> r < 9 \<Longrightarrow> length (b ! r) = 9"
  using nth_mem [of r b] by (auto simp: grid9_def list_all_iff)

lemma emptyCells_mem:
  "(r, c) \<in> set (emptyCells b ini) \<longleftrightarrow> r < 9 \<and> c < 9 \<and> b ! r ! c = 0 \<and> ini ! r ! c = 0"
  by (auto simp: emptyCells_def)

lemma emptyCells_nth:
  "k < length (emptyCells b ini) \<Longrightarrow> emptyCells b ini ! k = (r, c) \<Longrightarrow>
     r < 9 \<and> c < 9 \<and> b ! r ! c = 0 \<and> ini ! r ! c = 0"
  using emptyCells_mem [of r c b ini] nth_mem [of k "emptyCells b ini"] by simp

lemma scoreEffect_fields [simp]:
  "puzzle (scoreEffect s) = puzzle s"
  "solution (scoreEffect s) = solution s"
  "board (scoreEffect s) = board s"
  "initialBoard (scoreEffect s) = initialBoard s"
  "selectedCell (scoreEffect s) = selectedCell s"
  "timer (scoreEffect s) = timer s"
  "isTimerRunning (scoreEffect s) = isTimerRunning s"
  "isWon (scoreEffect s) = isWon s"
  "mistakes (scoreEffect s) = mistakes s"
  "hintsUsed (scoreEffect s) = hintsUsed s"
  "correctAnswers (scoreEffect s) = correctAnswers s"
  "difficulty (scoreEffect s) = difficulty s"
  "highlightedNumber (scoreEffect s) = highlightedNumber s"
  by (simp_all add: scoreEffect_def calculateScore_def Let_def)

lemma scoreEffect_idle: "isWon s = (finalScore s \<noteq> None) \<Longrightarrow> scoreEffect s = s"
  by (auto simp: scoreEffect_def)

lemma rerender_fields [simp]:
  "puzzle (rerender p s) = puzzle s"
  "solution (rerender p s) = solution s"
  "board (rerender p s) = board s"
  "initialBoard (rerender p s) = initialBoard s"
  "selectedCell (rerender p s) = selectedCell s"
  "timer (rerender p s) = timer s"
  "isTimerRunning (rerender p s) = isTimerRunning s"
  "isWon (rerender p s) = isWon s"
  "mistakes (rerender p s) = mistakes s"
  "hintsUsed (rerender p s) = hintsUsed s"
  "correctAnswers (rerender p s) = correctAnswers s"
  "finalScore (rerender p s) = finalScore s"
  "difficulty (rerender p s) = difficulty s"
  "highlightedNumber (rerender p s) = highlightedNumber s"
  by (simp_all add: rerender_def)

lemma rerender_same [simp]: "rerender s s = s"
  by (simp add: rerender_def)

lemma hni_frame [simp]:
  "puzzle (handleNumberInput v s) = puzzle s"
  "solution (handleNumberInput v s) = solution s"
  "initialBoard (handleNumberInput v s) = initialBoard s"
  "selectedCell (handleNumberInput v s) = selectedCell s"
  "timer (handleNumberInput v s) = timer s"
  "hintsUsed (handleNumberInput v s) = hintsUsed s"
  "finalScore (handleNumberInput v s) = finalScore s"
  "difficulty (handleNumberInput v s) = difficulty s"
  by (simp_all add: handleNumberInput_def winCheck_def Let_def split: option.split prod.split)

lemma hni_won: "isWon s \<Longrightarrow> handleNumberInput v s = s"
  by (simp add: handleNumberInput_def split: option.split prod.split)

lemma hni_mistakes:
  "mistakes s \<le> mistakes (handleNumberInput v s) \<and> mistakes (handleNumberInput v s) \<le> mistakes s + 1"
  by (simp add: handleNumberInput_def winCheck_def Let_def split: option.split prod.split)

lemma hni_correct: "0 \<le> correctAnswers s \<Longrightarrow> 0 \<le> correctAnswers (handleNumberInput v s)"
  by (simp add: handleNumberInput_def winCheck_def Let_def split: option.split prod.split)

lemma hni_board:
  "board (handleNumberInput v s) =
     (case (board s, selectedCell s, initialBoard s) of
        (Some b, Some (row, col), Some ini) \<Rightarrow>
          if isWon s \<or> ini ! row ! col \<noteq> 0 then board s
          else Some (setCell b row col (if b ! row ! col = v then 0 else v))
      | _ \<Rightarrow> board s)"
  by (simp add: handleNumberInput_def winCheck_def Let_def split: option.split prod.split)

lemma hni_isWon: "isWon s \<Longrightarrow> isWon (handleNumberInput v s)"
  by (simp add: hni_won)

lemma hint_frame [simp]:
  "puzzle (handleHint k s) = puzzle s"
  "solution (handleHint k s) = solution s"
  "initialBoard (handleHint k s) = initialBoard s"
  "timer (handleHint k s) = timer s"
  "isWon (handleHint k s) = isWon s"
  "isTimerRunning (handleHint k s) = isTimerRunning s"
  "mistakes (handleHint k s) = mistakes s"
  "correctAnswers (handleHint k s) = correctAnswers s"
  "finalScore (handleHint k s) = finalScore s"
  "difficulty (handleHint k s) = difficulty s"
  by (simp_all add: handleHint_def Let_def split: option.split prod.split)

lemma hint_cases:
  "handleHint k s = s \<or>
   (\<exists>b sol ini row col. board s = Some b \<and> solution s = Some sol \<and> initialBoard s = Some ini \<and>
      \<not> isWon s \<and> hintsUsed s < 3 \<and> emptyCells b ini \<noteq> [] \<and> emptyCells b ini ! k = (row, col) \<and>
      handleHint k s = s\<lparr>board := Some (setCell b row col (sol ! row ! col)),
                         hintsUsed := hintsUsed s + 1,
                         selectedCell := Some (row, col),
                         highlightedNumber := Some (sol ! row ! col)\<rparr>)"
  by (auto simp: handleHint_def Let_def split: option.split prod.split)

lemma cellClick_frame [simp]:
  "puzzle (cellClick r c s) = puzzle s"
  "solution (cellClick r c s) = solution s"
  "board (cellClick r c s) = board s"
  "initialBoard (cellClick r c s) = initialBoard s"
  "timer (cellClick r c s) = timer s"
  "isWon (cellClick r c s) = isWon s"
  "isTimerRunning (cellClick r c s) = isTimerRunning s"
  "mistakes (cellClick r c s) = mistakes s"
  "hintsUsed (cellClick r c s) = hintsUsed s"
  "correctAnswers (cellClick r c s) = correctAnswers s"
  "finalScore (cellClick r c s) = finalScore s"
  "difficulty (cellClick r c s) = difficulty s"
  by (simp_all add: cellClick_def Let_def split: option.split prod.split)

lemma key_frame [simp]:
  "puzzle (handleKeyPress k s) = puzzle s"
  "solution (handleKeyPress k s) = solution s"
  "initialBoard (handleKeyPress k s) = initialBoard s"
  "timer (handleKeyPress k s) = timer s"
  "hintsUsed (handleKeyPress k s) = hintsUsed s"
  "finalScore (handleKeyPress k s) = finalScore s"
  "difficulty (handleKeyPress k s) = difficulty s"
  by (simp_all add: handleKeyPress_def split: option.split prod.split key.split)

lemma key_digit: "handleKeyPress (Digit d) s = handleNumberInput d s"
  by (simp add: handleKeyPress_def handleNumberInput_def split: option.split prod.split)

lemma key_backspace: "handleKeyPress Backspace s = handleNumberInput 0 s"
  by (simp add: handleKeyPress_def handleNumberInput_def split: option.split prod.split)

lemma exec_cases:
  "in_session c \<Longrightarrow>
   (\<exists>v. exec c s = handleNumberInput v s) \<or> (\<exists>k. c = HintButton k \<and> exec c s = handleHint k s) \<or>
   view_change s (exec c s)"
proof (cases c)
  case (Key k)
  then show ?thesis
    by (cases k) (auto simp: handleKeyPress_def view_change_def split: option.split prod.split)
next
  case (NumberButton n)
  then show ?thesis by (auto simp: numberButton_def view_change_def)
next
  case ClearButton
  then show ?thesis by (auto simp: clearButton_def view_change_def)
next
  case (HintButton k)
  then show ?thesis by simp
next
  case (CellClick r c)
  then show ?thesis by (simp add: view_change_def)
next
  case ClickOutside
  then show ?thesis by (simp add: clickOutside_def view_change_def)
next
  case Tick
  then show ?thesis by (simp add: tick_def view_change_def)
next
  case (NewGameConfirm d)
  then show ?thesis by (simp add: handleNewGameConfirm_def view_change_def)
next
  case (DataLoaded d)
  assume "in_session c"
  with DataLoaded show ?thesis by simp
qed

subsection \<open>Prefilled cells\<close>

lemma list_all_upt9: "list_all P [0..<9] \<longleftrightarrow> (\<forall>i<9. P i)"
  by (auto simp: list_all_iff)

lemma prefilled_kept_refl: "prefilled_kept s s"
  by (simp add: prefilled_kept_def list_all_upt9 split: option.split)

lemma prefilled_kept_hni: "prefilled_kept s (handleNumberInput v s)"
  by (auto simp: prefilled_kept_def hni_board list_all_upt9 split: option.split prod.split
      intro!: setCell_other)

lemma prefilled_kept_hint:
  assumes "eligibleCells s = [] \<or> k < length (eligibleCells s)"
  shows "prefilled_kept s (handleHint k s)"
  using hint_cases [of k s]
proof
  assume "handleHint k s = s"
  then show ?thesis by (simp add: prefilled_kept_refl)
next
  assume "\<exists>b sol ini row col. board s = Some b \<and> solution s = Some sol \<and> initialBoard s = Some ini \<and>
      \<not> isWon s \<and> hintsUsed s < 3 \<and> emptyCells b ini \<noteq> [] \<and> emptyCells b ini ! k = (row, col) \<and>
      handleHint k s = s\<lparr>board := Some (setCell b row col (sol ! row ! col)),
                         hintsUsed := hintsUsed s + 1,
                         selectedCell := Some (row, col),
                         highlightedNumber := Some (sol ! row ! col)\<rparr>"
  then obtain b sol ini row col where h: "board s = Some b" "initialBoard s = Some ini"
      "emptyCells b ini \<noteq> []" "emptyCells b ini ! k = (row, col)"
      "handleHint k s = s\<lparr>board := Some (setCell b row col (sol ! row ! col)),
                         hintsUsed := hintsUsed s + 1,
                         selectedCell := Some (row, col),
                         highlightedNumber := Some (sol ! row ! col)\<rparr>"
    by blast
  from assms h have "k < length (emptyCells b ini)" by (simp add: eligibleCells_def)
  with h(4) have z: "ini ! row ! col = 0" using emptyCells_nth by blast
  have "setCell b row col x ! i ! j = b ! i ! j" if "ini ! i ! j \<noteq> 0" for i j x
    using that z by (intro setCell_other) auto
  with h show ?thesis by (simp add: prefilled_kept_def list_all_upt9)
qed

lemma prefilled_kept_view: "view_change s s' \<Longrightarrow> prefilled_kept s s'"
  by (simp add: view_change_def prefilled_kept_def list_all_upt9 split: option.split)

lemma prefilled_kept_exec:
  assumes "in_session c" and "valid c s"
  shows "prefilled_kept s (exec c s)"
  using exec_cases [OF assms(1), of s] assms(2)
  by (auto simp: prefilled_kept_hni prefilled_kept_hint prefilled_kept_view)

lemma prefilled_kept_run:
  assumes "in_session c" and "valid c s"
  shows "prefilled_kept s (run c s)"
  using prefilled_kept_exec [OF assms] by (auto simp: prefilled_kept_def run_def split: option.splits)

lemma prefilled_intact_kept:
  "prefilled_intact s \<Longrightarrow> prefilled_kept s s' \<Longrightarrow> prefilled_intact s'"
  by (auto simp: prefilled_intact_def prefilled_kept_def list_all_upt9 split: option.splits)

lemma prefilled_intact_load: "prefilled_intact (run (DataLoaded d) s)"
  by (simp add: prefilled_intact_def run_def initialize_def deepCopy_id list_all_upt9)

lemma prefilled_intact_run:
  assumes "prefilled_intact s" and "valid c s"
  shows "prefilled_intact (run c s)"
proof (cases "in_session c")
  case True
  with assms show ?thesis using prefilled_intact_kept prefilled_kept_run by blast
next
  case False
  then obtain d where "c = DataLoaded d" by (cases c) auto
  then show ?thesis by (simp add: prefilled_intact_load)
qed

lemma prefilled_intact_runs:
  "prefilled_intact s \<Longrightarrow> all_valid cs s \<Longrightarrow> prefilled_intact (runs cs s)"
  by (induction cs arbitrary: s) (auto simp: prefilled_intact_run)

lemma prefilled_intact_initial: "prefilled_intact initial_state"
  by (simp add: prefilled_intact_def initial_state_def)

text \<open>
  C1. In every state reached from the first render by commands, every prefilled cell of
  the board equals the puzzle cell, and it still does after any further command; a
  command inside a session (placing, clearing, hint, cell click, arrow key, click
  outside, tick, difficulty choice) leaves every prefilled cell of the board as it was.
\<close>

theorem prefilled_cells_never_change:
  assumes "all_valid cs initial_state" and "valid c (runs cs initial_state)"
  shows "prefilled_intact (runs cs initial_state)
         \<and> prefilled_intact (run c (runs cs initial_state))
         \<and> (in_session c \<longrightarrow> prefilled_kept (runs cs initial_state) (run c (runs cs initial_state)))"
proof -
  have a: "prefilled_intact (runs cs initial_state)"
    using assms(1) by (simp add: prefilled_intact_runs prefilled_intact_initial)
  from a assms(2) have b: "prefilled_intact (run c (runs cs initial_state))"
    by (rule prefilled_intact_run)
  from a b assms(2) show ?thesis by (simp add: prefilled_kept_run)
qed

theorem prefilled_cells_never_change_witness:
  "all_valid demoCommands initial_state
   \<and> valid (Key (Digit 9)) (runs demoCommands initial_state)
   \<and> in_session (Key (Digit 9))
   \<and> selectedCell (runs demoCommands initial_state) = Some (0, 1)
   \<and> prefilled_intact (run (Key (Digit 9)) (runs demoCommands initial_state))
   \<and> prefilled_kept (runs demoCommands initial_state)
        (run (Key (Digit 9)) (runs demoCommands initial_state))"
proof -
  have h1: "all_valid demoCommands initial_state" by code_simp
  have h2: "valid (Key (Digit 9)) (runs demoCommands initial_state)" by code_simp
  have h3: "selectedCell (runs demoCommands initial_state) = Some (0, 1)" by code_simp
  from prefilled_cells_never_change [OF h1 h2] h1 h2 h3 show ?thesis by simp
qed

subsection \<open>Guards of the hint handler\<close>

lemma hint_won: "isWon s \<Longrightarrow> handleHint k s = s"
  by (simp add: handleHint_def split: option.split)

lemma hint_spent: "3 \<le> hintsUsed s \<Longrightarrow> handleHint k s = s"
  by (simp add: handleHint_def split: option.split)

lemma hint_hintsUsed:
  "hintsUsed s \<le> hintsUsed (handleHint k s) \<and>
   (hintsUsed s \<le> 3 \<longrightarrow> hintsUsed (handleHint k s) \<le> 3)"
  using hint_cases [of k s] by auto

subsection \<open>Counters\<close>

lemma counters_ok_exec:
  assumes "counters_ok s" and "in_session c"
  shows "counters_ok (exec c s)"
  using exec_cases [OF assms(2), of s]
proof (elim disjE exE conjE)
  fix v assume "exec c s = handleNumberInput v s"
  with assms(1) hni_mistakes [of s v] hni_correct [of s v] show ?thesis
    by (simp add: counters_ok_def)
next
  fix k assume "exec c s = handleHint k s"
  with assms(1) hint_hintsUsed [of s k] show ?thesis
    by (simp add: counters_ok_def)
next
  assume "view_change s (exec c s)"
  with assms(1) show ?thesis by (simp add: counters_ok_def view_change_def)
qed

lemma counters_ok_run: "counters_ok s \<Longrightarrow> counters_ok (run c s)"
proof (cases "in_session c")
  case True
  assume "counters_ok s"
  with True have "counters_ok (exec c s)" by (simp add: counters_ok_exec)
  then show ?thesis by (simp add: counters_ok_def run_def)
next
  case False
  then obtain d where "c = DataLoaded d" by (cases c) auto
  then show ?thesis by (simp add: counters_ok_def run_def initialize_def)
qed

lemma counters_ok_runs: "counters_ok s \<Longrightarrow> counters_ok (runs cs s)"
  by (induction cs arbitrary: s) (auto simp: counters_ok_run)

lemma counters_ok_initial: "counters_ok initial_state"
  by (simp add: counters_ok_def initial_state_def)

lemma exec_monotone:
  assumes "in_session c"
  shows "hintsUsed s \<le> hintsUsed (exec c s) \<and> mistakes s \<le> mistakes (exec c s)"
  using exec_cases [OF assms, of s]
proof (elim disjE exE conjE)
  fix v assume "exec c s = handleNumberInput v s"
  with hni_mistakes [of s v] show ?thesis by simp
next
  fix k assume "exec c s = handleHint k s"
  with hint_hintsUsed [of s k] show ?thesis by simp
next
  assume "view_change s (exec c s)"
  then show ?thesis by (simp add: view_change_def)
qed

lemma runs_monotone:
  "list_all in_session cs \<Longrightarrow>
     hintsUsed s \<le> hintsUsed (runs cs s) \<and> mistakes s \<le> mistakes (runs cs s)"
proof (induction cs arbitrary: s)
  case Nil
  then show ?case by simp
next
  case (Cons c cs)
  then have "in_session c" and "list_all in_session cs" by simp_all
  from exec_monotone [OF this(1), of s] Cons.IH [OF this(2), of "run c s"]
  show ?case by (simp add: run_def)
qed

subsection \<open>The stored score\<close>

lemma score_ok_scoreEffect:
  "(finalScore s \<noteq> None \<longrightarrow> isWon s) \<Longrightarrow> score_ok (scoreEffect s)"
  by (auto simp: score_ok_def scoreEffect_def calculateScore_def Let_def)

lemma exec_keeps_score:
  assumes "in_session c"
  shows "finalScore (exec c s) = finalScore s \<and> (isWon s \<longrightarrow> isWon (exec c s))"
  using exec_cases [OF assms, of s]
proof (elim disjE exE conjE)
  fix v assume "exec c s = handleNumberInput v s"
  then show ?thesis by (simp add: hni_won)
next
  fix k assume "exec c s = handleHint k s"
  then show ?thesis by simp
next
  assume "view_change s (exec c s)"
  then show ?thesis by (simp add: view_change_def)
qed

lemma score_ok_run: "score_ok s \<Longrightarrow> score_ok (run c s)"
proof (cases "in_session c")
  case True
  assume "score_ok s"
  with exec_keeps_score [OF True, of s] have "finalScore (exec c s) \<noteq> None \<longrightarrow> isWon (exec c s)"
    by (simp add: score_ok_def)
  then show ?thesis by (simp add: run_def score_ok_scoreEffect)
next
  case False
  then obtain d where "c = DataLoaded d" by (cases c) auto
  then show ?thesis by (simp add: run_def initialize_def score_ok_scoreEffect)
qed

lemma score_ok_runs: "score_ok s \<Longrightarrow> score_ok (runs cs s)"
  by (induction cs arbitrary: s) (auto simp: score_ok_run)

lemma score_ok_initial: "score_ok initial_state"
  by (simp add: score_ok_def initial_state_def)

lemma score_ok_idle: "score_ok s \<Longrightarrow> scoreEffect s = s"
  by (simp add: score_ok_def scoreEffect_idle)

lemma score_ok_rerender [simp]: "score_ok (rerender p s) = score_ok s"
  by (simp add: score_ok_def)

lemma frozen_rerender [simp]: "frozen s (rerender p s') = frozen s s'"
  by (simp add: frozen_def)

subsection \<open>After the win\<close>

lemma exec_won:
  assumes "isWon s" and "in_session c"
  shows "frozen s (exec c s)"
  using exec_cases [OF assms(2), of s]
proof (elim disjE exE conjE)
  fix v assume "exec c s = handleNumberInput v s"
  with assms(1) show ?thesis by (simp add: hni_won frozen_def)
next
  fix k assume "exec c s = handleHint k s"
  with assms(1) show ?thesis by (simp add: hint_won frozen_def)
next
  assume "view_change s (exec c s)"
  with assms(1) show ?thesis by (simp add: view_change_def frozen_def)
qed

lemma run_won:
  assumes "isWon s" and "finalScore s \<noteq> None" and "in_session c"
  shows "frozen s (run c s)"
proof -
  from exec_won [OF assms(1,3)] assms(2)
  have f: "frozen s (exec c s)" and "score_ok (exec c s)"
    by (auto simp: frozen_def score_ok_def)
  then show ?thesis by (simp add: run_def score_ok_idle)
qed

lemma runs_won:
  "isWon s \<Longrightarrow> finalScore s \<noteq> None \<Longrightarrow> list_all in_session cs \<Longrightarrow> frozen s (runs cs s)"
proof (induction cs arbitrary: s)
  case Nil
  then show ?case by (simp add: frozen_def)
next
  case (Cons c cs)
  then have c: "in_session c" and cs: "list_all in_session cs" by simp_all
  from run_won [OF Cons.prems(1,2) c] have f: "frozen s (run c s)" .
  with Cons.prems(2) have "isWon (run c s)" and "finalScore (run c s) \<noteq> None"
    by (simp_all add: frozen_def)
  from Cons.IH [OF this cs] f show ?case by (simp add: frozen_def)
qed

text \<open>
  C6. In every reachable state that is won, a final score is stored, placing, clearing
  and asking for a hint return the state as it is, and after any further commands of the
  session the game is still won with the same board, counters and final score. In every
  reachable state that is not won no final score is stored, and a command that wins
  stores one.
\<close>

theorem won_is_fixed_point:
  assumes "all_valid cs initial_state" and "s = runs cs initial_state"
  shows "(isWon s \<longrightarrow>
            finalScore s \<noteq> None
            \<and> placeDigit d s = s \<and> clearCell s = s \<and> requestHint k s = s
            \<and> (list_all in_session cs' \<longrightarrow> frozen s (runs cs' s)))
         \<and> (\<not> isWon s \<longrightarrow>
              finalScore s = None
              \<and> (isWon (run c s) \<longrightarrow> finalScore (run c s) \<noteq> None))"
proof -
  have ok: "score_ok s"
    using assms(2) by (simp add: score_ok_runs score_ok_initial)
  have won: "finalScore s \<noteq> None \<and> placeDigit d s = s \<and> clearCell s = s \<and> requestHint k s = s
             \<and> (list_all in_session cs' \<longrightarrow> frozen s (runs cs' s))" if w: "isWon s"
  proof -
    from ok w have fs: "finalScore s \<noteq> None" by (simp add: score_ok_def)
    from ok w have "placeDigit d s = s" "clearCell s = s" "requestHint k s = s"
      by (simp_all add: placeDigit_def clearCell_def requestHint_def run_def key_digit
            key_backspace hni_won hint_won score_ok_idle)
    with fs w show ?thesis by (simp add: runs_won)
  qed
  have notwon: "finalScore s = None \<and> (isWon (run c s) \<longrightarrow> finalScore (run c s) \<noteq> None)"
    if n: "\<not> isWon s"
  proof -
    from ok n have fs: "finalScore s = None" by (simp add: score_ok_def)
    from ok have "score_ok (run c s)" by (rule score_ok_run)
    with fs show ?thesis by (simp add: score_ok_def)
  qed
  from won notwon show ?thesis by blast
qed

theorem won_is_fixed_point_witness:
  "all_valid wonCommands initial_state
   \<and> isWon (runs wonCommands initial_state)
   \<and> list_all in_session laterCommands
   \<and> placeDigit 4 (runs wonCommands initial_state) = runs wonCommands initial_state
   \<and> frozen (runs wonCommands initial_state) (runs laterCommands (runs wonCommands initial_state))
   \<and> all_valid (butlast wonCommands) initial_state
   \<and> \<not> isWon (runs (butlast wonCommands) initial_state)
   \<and> isWon (run (Key (Digit 4)) (runs (butlast wonCommands) initial_state))
   \<and> finalScore (run (Key (Digit 4)) (runs (butlast wonCommands) initial_state)) \<noteq> None"
proof -
  have h1: "all_valid wonCommands initial_state" by code_simp
  have h2: "isWon (runs wonCommands initial_state)" by code_simp
  have h3: "list_all in_session laterCommands" by code_simp
  have h4: "all_valid (butlast wonCommands) initial_state" by code_simp
  have h5: "\<not> isWon (runs (butlast wonCommands) initial_state)" by code_simp
  have h6: "isWon (run (Key (Digit 4)) (runs (butlast wonCommands) initial_state))" by code_simp
  from won_is_fixed_point [OF h1 refl, of 4 0 laterCommands "Tick"]
       won_is_fixed_point [OF h4 refl, of 4 0 laterCommands "Key (Digit 4)"]
       h1 h2 h3 h4 h5 h6
  show ?thesis by simp
qed

text \<open>
  C8. In every reachable state the number of hints used lies between 0 and 3; no sequence
  of commands of a session lowers it; and with three hints used a hint request returns the
  state as it is.
\<close>

theorem hints_bounded_and_monotone:
  assumes "all_valid cs initial_state" and "s = runs cs initial_state"
  shows "0 \<le> hintsUsed s \<and> hintsUsed s \<le> 3
         \<and> (list_all in_session cs' \<longrightarrow> hintsUsed s \<le> hintsUsed (runs cs' s))
         \<and> (hintsUsed s = 3 \<longrightarrow> requestHint k s = s)"
proof -
  have "counters_ok s" using assms(2) by (simp add: counters_ok_runs counters_ok_initial)
  then have a: "0 \<le> hintsUsed s \<and> hintsUsed s \<le> 3" by (simp add: counters_ok_def)
  have ok: "score_ok s" using assms(2) by (simp add: score_ok_runs score_ok_initial)
  have b: "list_all in_session cs' \<longrightarrow> hintsUsed s \<le> hintsUsed (runs cs' s)"
    using runs_monotone [of cs' s] by simp
  have c: "hintsUsed s = 3 \<longrightarrow> requestHint k s = s"
    using ok by (simp add: requestHint_def run_def hint_spent score_ok_idle)
  from a b c show ?thesis by blast
qed

theorem hints_bounded_and_monotone_witness:
  "all_valid hintCommands initial_state
   \<and> hintsUsed (runs hintCommands initial_state) = 3
   \<and> eligibleCells (runs hintCommands initial_state) = [(4, 4)]
   \<and> list_all in_session [HintButton 0, Tick]
   \<and> hintsUsed (runs [HintButton 0, Tick] (runs hintCommands initial_state)) = 3
   \<and> requestHint 0 (runs hintCommands initial_state) = runs hintCommands initial_state"
proof -
  have h1: "all_valid hintCommands initial_state" by code_simp
  have h2: "hintsUsed (runs hintCommands initial_state) = 3" by code_simp
  have h3: "eligibleCells (runs hintCommands initial_state) = [(4, 4)]" by code_simp
  have h4: "list_all in_session [HintButton 0, Tick]" by simp
  have h5: "hintsUsed (runs [HintButton 0, Tick] (runs hintCommands initial_state)) = 3" by code_simp
  from hints_bounded_and_monotone [OF h1 refl, of "[HintButton 0, Tick]" 0] h1 h2 h3 h4 h5
  show ?thesis by simp
qed

subsection \<open>Well-formed states\<close>

lemma well_formed_initial: "well_formed initial_state"
  by (simp add: well_formed_def initial_state_def)

lemma exec_selected:
  assumes "valid c s" and "in_session c"
    and "case selectedCell s of None \<Rightarrow> True | Some (r, c) \<Rightarrow> r < 9 \<and> c < 9"
  shows "case selectedCell (exec c s) of None \<Rightarrow> True | Some (r, c) \<Rightarrow> r < 9 \<and> c < 9"
proof (cases c)
  case (Key k)
  with assms(3) show ?thesis
    by (cases k) (auto simp: handleKeyPress_def split: option.splits prod.splits)
next
  case (NumberButton n)
  with assms(3) show ?thesis by (simp add: numberButton_def)
next
  case ClearButton
  with assms(3) show ?thesis by (simp add: clearButton_def)
next
  case (HintButton k)
  from hint_cases [of k s] show ?thesis
  proof (elim disjE exE conjE)
    assume "handleHint k s = s"
    with HintButton assms(3) show ?thesis by simp
  next
    fix b sol ini row col
    assume h: "board s = Some b" "initialBoard s = Some ini" "emptyCells b ini \<noteq> []"
      "emptyCells b ini ! k = (row, col)"
      "handleHint k s = s\<lparr>board := Some (setCell b row col (sol ! row ! col)),
                         hintsUsed := hintsUsed s + 1,
                         selectedCell := Some (row, col),
                         highlightedNumber := Some (sol ! row ! col)\<rparr>"
    from assms(1) HintButton h have "k < length (emptyCells b ini)"
      by (simp add: eligibleCells_def)
    with h(4) have "row < 9 \<and> col < 9" using emptyCells_nth by blast
    with HintButton h(5) show ?thesis by simp
  qed
next
  case (CellClick r c')
  with assms(1,3) show ?thesis
    by (auto simp: cellClick_def Let_def split: option.splits prod.splits)
next
  case ClickOutside
  then show ?thesis by (simp add: clickOutside_def)
next
  case Tick
  with assms(3) show ?thesis by (simp add: tick_def)
next
  case (NewGameConfirm d)
  with assms(3) show ?thesis by (simp add: handleNewGameConfirm_def)
next
  case (DataLoaded d)
  with assms(2) show ?thesis by simp
qed

lemma exec_grids:
  assumes "in_session c"
  shows "puzzle (exec c s) = puzzle s \<and> solution (exec c s) = solution s \<and>
         initialBoard (exec c s) = initialBoard s \<and>
         (board (exec c s) = board s \<or>
          (\<exists>b r c' v. board s = Some b \<and> board (exec c s) = Some (setCell b r c' v)))"
  using exec_cases [OF assms, of s]
proof (elim disjE exE conjE)
  fix v assume e: "exec c s = handleNumberInput v s"
  show ?thesis unfolding e by (auto simp: hni_board split: option.split prod.split)
next
  fix k assume e: "exec c s = handleHint k s"
  from hint_cases [of k s] show ?thesis unfolding e
  proof (elim disjE exE conjE)
    assume "handleHint k s = s"
    then show "puzzle (handleHint k s) = puzzle s \<and> solution (handleHint k s) = solution s \<and>
         initialBoard (handleHint k s) = initialBoard s \<and>
         (board (handleHint k s) = board s \<or>
          (\<exists>b r c' v. board s = Some b \<and> board (handleHint k s) = Some (setCell b r c' v)))"
      by simp
  next
    fix b sol ini row col
    assume h: "board s = Some b"
      "handleHint k s = s\<lparr>board := Some (setCell b row col (sol ! row ! col)),
                         hintsUsed := hintsUsed s + 1,
                         selectedCell := Some (row, col),
                         highlightedNumber := Some (sol ! row ! col)\<rparr>"
    have "\<exists>b r c' v. board s = Some b \<and> board (handleHint k s) = Some (setCell b r c' v)"
      using h
      by (intro exI [of _ b] exI [of _ row] exI [of _ col] exI [of _ "sol ! row ! col"]) simp
    then show "puzzle (handleHint k s) = puzzle s \<and> solution (handleHint k s) = solution s \<and>
         initialBoard (handleHint k s) = initialBoard s \<and>
         (board (handleHint k s) = board s \<or>
          (\<exists>b r c' v. board s = Some b \<and> board (handleHint k s) = Some (setCell b r c' v)))"
      by simp
  qed
next
  assume "view_change s (exec c s)"
  then show ?thesis by (simp add: view_change_def)
qed

lemma well_formed_run:
  assumes "well_formed s" and "valid c s"
  shows "well_formed (run c s)"
proof (cases "in_session c")
  case True
  from assms(1) have sel: "case selectedCell s of None \<Rightarrow> True | Some (r, c) \<Rightarrow> r < 9 \<and> c < 9"
    by (simp add: well_formed_def)
  from exec_selected [OF assms(2) True sel] exec_grids [OF True, of s] assms(1)
  show ?thesis
    by (auto simp: well_formed_def run_def grid9_setCell split: option.splits)
next
  case False
  then obtain d where "c = DataLoaded d" by (cases c) auto
  with assms(2) show ?thesis
    by (simp add: well_formed_def run_def initialize_def deepCopy_id)
qed

lemma well_formed_board: "well_formed s \<Longrightarrow> board s = Some b \<Longrightarrow> grid9 b"
  by (auto simp: well_formed_def split: option.splits)

lemma well_formed_runs: "well_formed s \<Longrightarrow> all_valid cs s \<Longrightarrow> well_formed (runs cs s)"
  by (induction cs arbitrary: s) (auto simp: well_formed_run)

subsection \<open>Mistakes\<close>

text \<open>
  C10. No sequence of commands of a session lowers the mistakes counter. Clearing and
  hints leave it as it is. Placing a digit on the selected editable cell of a game that is
  not won adds exactly one when the digit differs from the cell's content and from the
  solution, and nothing otherwise, in particular nothing when it toggles a wrong digit
  away. Loading a puzzle sets the counter to 0.
\<close>

theorem mistakes_never_decrease:
  "(list_all in_session cs \<longrightarrow> mistakes s \<le> mistakes (runs cs s))
   \<and> mistakes (clearCell s) = mistakes s
   \<and> mistakes (requestHint k s) = mistakes s
   \<and> (board s = Some b \<and> selectedCell s = Some (r, c) \<and> initialBoard s = Some ini
        \<and> solution s = Some sol \<and> \<not> isWon s \<and> ini ! r ! c = 0 \<and> 1 \<le> d \<and> d \<le> 9 \<longrightarrow>
      mistakes (placeDigit d s) =
        (if b ! r ! c \<noteq> d \<and> sol ! r ! c \<noteq> d then mistakes s + 1 else mistakes s))
   \<and> mistakes (run (DataLoaded dat) s) = 0"
proof -
  have a: "list_all in_session cs \<longrightarrow> mistakes s \<le> mistakes (runs cs s)"
    using runs_monotone [of cs s] by simp
  have b: "mistakes (clearCell s) = mistakes s"
    by (simp add: clearCell_def run_def key_backspace handleNumberInput_def winCheck_def Let_def
          split: option.split prod.split)
  have c: "mistakes (requestHint k s) = mistakes s"
    by (simp add: requestHint_def run_def)
  have d: "mistakes (placeDigit d s) =
        (if b ! r ! c \<noteq> d \<and> sol ! r ! c \<noteq> d then mistakes s + 1 else mistakes s)"
    if "board s = Some b" "selectedCell s = Some (r, c)" "initialBoard s = Some ini"
       "solution s = Some sol" "\<not> isWon s" "ini ! r ! c = 0" "1 \<le> d" "d \<le> 9"
    using that
    by (simp add: placeDigit_def run_def key_digit handleNumberInput_def winCheck_def Let_def)
  have e: "mistakes (run (DataLoaded dat) s) = 0"
    by (simp add: run_def initialize_def)
  from a b c d e show ?thesis by blast
qed

theorem mistakes_never_decrease_witness:
  "list_all in_session [Key (Digit 7), Key (Digit 7), Key Backspace, HintButton 0]
   \<and> mistakes (runs selectedCommands initial_state) = 0
   \<and> mistakes (runs [Key (Digit 7), Key (Digit 7), Key Backspace, HintButton 0]
                 (runs selectedCommands initial_state)) = 1
   \<and> board (runs selectedCommands initial_state) = Some demoPuzzle2
   \<and> selectedCell (runs selectedCommands initial_state) = Some (0, 2)
   \<and> initialBoard (runs selectedCommands initial_state) = Some demoPuzzle2
   \<and> solution (runs selectedCommands initial_state) = Some demoSolution
   \<and> \<not> isWon (runs selectedCommands initial_state)
   \<and> demoPuzzle2 ! 0 ! 2 = 0 \<and> demoSolution ! 0 ! 2 \<noteq> 7
   \<and> mistakes (placeDigit 7 (runs selectedCommands initial_state)) = 1"
proof -
  have h1: "list_all in_session [Key (Digit 7), Key (Digit 7), Key Backspace, HintButton 0]"
    by simp
  have h2: "mistakes (runs selectedCommands initial_state) = 0" by code_simp
  have h3: "mistakes (runs [Key (Digit 7), Key (Digit 7), Key Backspace, HintButton 0]
                 (runs selectedCommands initial_state)) = 1" by code_simp
  have h4: "board (runs selectedCommands initial_state) = Some demoPuzzle2" by code_simp
  have h5: "selectedCell (runs selectedCommands initial_state) = Some (0, 2)" by code_simp
  have h6: "initialBoard (runs selectedCommands initial_state) = Some demoPuzzle2" by code_simp
  have h7: "solution (runs selectedCommands initial_state) = Some demoSolution" by code_simp
  have h8: "\<not> isWon (runs selectedCommands initial_state)" by code_simp
  have h9: "demoPuzzle2 ! 0 ! 2 = 0 \<and> demoSolution ! 0 ! 2 \<noteq> 7" by code_simp
  from mistakes_never_decrease [of "[Key (Digit 7), Key (Digit 7), Key Backspace, HintButton 0]"
         "runs selectedCommands initial_state" 0 demoPuzzle2 0 2 demoPuzzle2 demoSolution 7 demoData1]
       h1 h2 h3 h4 h5 h6 h7 h8 h9
  show ?thesis by simp
qed

subsection \<open>What a hint reveals\<close>

text \<open>
  C7. In every reachable state and for every index the random draw can give: when a hint
  request changes the board, the cell it picked is one of the eligible cells, lies on the
  grid, is empty on the board and not prefilled; the new board is the old one with that
  cell set to the solution's digit, every other cell as before; the cell becomes the
  selected cell and the digit the highlighted number, and one more hint is used. When
  there is no eligible cell the request returns the state as it is.
\<close>

theorem hint_reveals_eligible_cell:
  assumes "all_valid cs initial_state" and "s = runs cs initial_state"
    and "valid (HintButton k) s"
  shows "(board (requestHint k s) \<noteq> board s \<longrightarrow>
           (\<exists>b sol ini b' row col.
              board s = Some b \<and> solution s = Some sol \<and> initialBoard s = Some ini
              \<and> (row, col) \<in> set (eligibleCells s) \<and> row < 9 \<and> col < 9
              \<and> b ! row ! col = 0 \<and> ini ! row ! col = 0
              \<and> board (requestHint k s) = Some b'
              \<and> b' = setCell b row col (sol ! row ! col)
              \<and> b' ! row ! col = sol ! row ! col
              \<and> (\<forall>i j. (i, j) \<noteq> (row, col) \<longrightarrow> b' ! i ! j = b ! i ! j)
              \<and> selectedCell (requestHint k s) = Some (row, col)
              \<and> highlightedNumber (requestHint k s) = Some (sol ! row ! col)
              \<and> hintsUsed (requestHint k s) = hintsUsed s + 1))
         \<and> (eligibleCells s = [] \<longrightarrow> requestHint k s = s)"
proof -
  have ok: "score_ok s" using assms(2) by (simp add: score_ok_runs score_ok_initial)
  have wf: "well_formed s"
    using assms(1,2) by (simp add: well_formed_runs well_formed_initial)
  have none: "requestHint k s = s" if "eligibleCells s = []"
  proof -
    from that have "handleHint k s = s"
      by (auto simp: handleHint_def eligibleCells_def split: option.splits)
    with ok show ?thesis by (simp add: requestHint_def run_def score_ok_idle)
  qed
  have some: "\<exists>b sol ini b' row col.
              board s = Some b \<and> solution s = Some sol \<and> initialBoard s = Some ini
              \<and> (row, col) \<in> set (eligibleCells s) \<and> row < 9 \<and> col < 9
              \<and> b ! row ! col = 0 \<and> ini ! row ! col = 0
              \<and> board (requestHint k s) = Some b'
              \<and> b' = setCell b row col (sol ! row ! col)
              \<and> b' ! row ! col = sol ! row ! col
              \<and> (\<forall>i j. (i, j) \<noteq> (row, col) \<longrightarrow> b' ! i ! j = b ! i ! j)
              \<and> selectedCell (requestHint k s) = Some (row, col)
              \<and> highlightedNumber (requestHint k s) = Some (sol ! row ! col)
              \<and> hintsUsed (requestHint k s) = hintsUsed s + 1"
    if ch: "board (requestHint k s) \<noteq> board s"
  proof -
    from ch have "handleHint k s \<noteq> s" by (auto simp: requestHint_def run_def)
    with hint_cases [of k s] obtain b sol ini row col where
      h: "board s = Some b" "solution s = Some sol" "initialBoard s = Some ini"
         "emptyCells b ini \<noteq> []" "emptyCells b ini ! k = (row, col)"
         "handleHint k s = s\<lparr>board := Some (setCell b row col (sol ! row ! col)),
                         hintsUsed := hintsUsed s + 1,
                         selectedCell := Some (row, col),
                         highlightedNumber := Some (sol ! row ! col)\<rparr>"
      by blast
    from h(1,3) have el: "eligibleCells s = emptyCells b ini" by (simp add: eligibleCells_def)
    with assms(3) h(4) have k: "k < length (emptyCells b ini)" by simp
    from emptyCells_nth [OF k h(5)] have cell: "row < 9" "col < 9" "b ! row ! col = 0"
      "ini ! row ! col = 0" by simp_all
    from k h(5) el have mem: "(row, col) \<in> set (eligibleCells s)"
      using nth_mem [of k "emptyCells b ini"] by simp
    from wf h(1) have "grid9 b" by (rule well_formed_board)
    with cell(1,2) have "row < length b" "col < length (b ! row)"
      by (simp_all add: grid9_nth) (simp add: grid9_def)
    then have same: "setCell b row col (sol ! row ! col) ! row ! col = sol ! row ! col"
      by (rule setCell_same)
    have other: "\<forall>i j. (i, j) \<noteq> (row, col) \<longrightarrow>
                   setCell b row col (sol ! row ! col) ! i ! j = b ! i ! j"
      by (simp add: setCell_other)
    from h cell mem same other show ?thesis
      by (simp add: requestHint_def run_def)
  qed
  from none some show ?thesis by blast
qed

theorem hint_reveals_eligible_cell_witness:
  "all_valid selectedCommands initial_state
   \<and> valid (HintButton 1) (runs selectedCommands initial_state)
   \<and> eligibleCells (runs selectedCommands initial_state) = [(0, 2), (8, 8)]
   \<and> board (requestHint 1 (runs selectedCommands initial_state)) \<noteq>
       board (runs selectedCommands initial_state)
   \<and> selectedCell (requestHint 1 (runs selectedCommands initial_state)) = Some (8, 8)
   \<and> highlightedNumber (requestHint 1 (runs selectedCommands initial_state)) = Some 9
   \<and> (\<exists>row col. (row, col) \<in> set (eligibleCells (runs selectedCommands initial_state))
         \<and> selectedCell (requestHint 1 (runs selectedCommands initial_state)) = Some (row, col))
   \<and> all_valid wonCommands initial_state
   \<and> valid (HintButton 5) (runs wonCommands initial_state)
   \<and> eligibleCells (runs wonCommands initial_state) = []
   \<and> requestHint 5 (runs wonCommands initial_state) = runs wonCommands initial_state"
proof -
  have h1: "all_valid selectedCommands initial_state" by code_simp
  have h2: "valid (HintButton 1) (runs selectedCommands initial_state)" by code_simp
  have h3: "eligibleCells (runs selectedCommands initial_state) = [(0, 2), (8, 8)]" by code_simp
  have h4: "board (requestHint 1 (runs selectedCommands initial_state)) \<noteq>
       board (runs selectedCommands initial_state)" by code_simp
  have h5: "selectedCell (requestHint 1 (runs selectedCommands initial_state)) = Some (8, 8)"
    by code_simp
  have h6: "highlightedNumber (requestHint 1 (runs selectedCommands initial_state)) = Some 9"
    by code_simp
  have g1: "all_valid wonCommands initial_state" by code_simp
  have g2: "valid (HintButton 5) (runs wonCommands initial_state)" by code_simp
  have g3: "eligibleCells (runs wonCommands initial_state) = []" by code_simp
  from hint_reveals_eligible_cell [OF h1 refl h2] h4
  have "\<exists>row col. (row, col) \<in> set (eligibleCells (runs selectedCommands initial_state))
         \<and> selectedCell (requestHint 1 (runs selectedCommands initial_state)) = Some (row, col)"
    by blast
  moreover from hint_reveals_eligible_cell [OF g1 refl g2] g3
  have "requestHint 5 (runs wonCommands initial_state) = runs wonCommands initial_state"
    by blast
  ultimately show ?thesis using h1 h2 h3 h4 h5 h6 g1 g2 g3 by blast
qed

subsection \<open>Placing a digit\<close>

lemma setCell_idle: "b ! r ! c = w \<Longrightarrow> setCell b r c w = b"
  by (auto simp: setCell_def)

lemma setCell_twice: "r < length b \<Longrightarrow> setCell (setCell b r c v) r c w = setCell b r c w"
  by (simp add: setCell_def)

lemma placeDigit_unfold:
  assumes "board s = Some b" "selectedCell s = Some (r, c)" "initialBoard s = Some ini"
    "solution s = Some sol" "\<not> isWon s" "ini ! r ! c = 0" "d \<noteq> 0"
  shows "board (placeDigit d s) = Some (setCell b r c (if b ! r ! c = d then 0 else d))"
    and "correctAnswers (placeDigit d s) =
           (if b ! r ! c = d then (if sol ! r ! c = d then max 0 (correctAnswers s - 1)
                                   else correctAnswers s)
            else if sol ! r ! c = d then correctAnswers s + 1 else correctAnswers s)"
    and "mistakes (placeDigit d s) =
           (if b ! r ! c \<noteq> d \<and> sol ! r ! c \<noteq> d then mistakes s + 1 else mistakes s)"
    and "isWon (placeDigit d s) = isComplete (setCell b r c (if b ! r ! c = d then 0 else d)) sol"
    and "selectedCell (placeDigit d s) = Some (r, c)"
    and "initialBoard (placeDigit d s) = Some ini"
    and "solution (placeDigit d s) = Some sol"
  using assms
  by (auto simp: placeDigit_def run_def key_digit handleNumberInput_def winCheck_def Let_def)

text \<open>
  C2, as stated, fails: the cell (0, 2) is empty and editable, its solution is 4, and
  placing 7 twice leaves the board as it was but the mistakes counter at 1, not at the 0
  it had before the first placement.
\<close>

theorem toggle_keeps_the_mistake:
  "board (runs selectedCommands initial_state) = Some demoPuzzle2
   \<and> initialBoard (runs selectedCommands initial_state) = Some demoPuzzle2
   \<and> selectedCell (runs selectedCommands initial_state) = Some (0, 2)
   \<and> demoPuzzle2 ! 0 ! 2 = 0
   \<and> mistakes (runs selectedCommands initial_state) = 0
   \<and> board (placeDigit 7 (placeDigit 7 (runs selectedCommands initial_state))) = Some demoPuzzle2
   \<and> mistakes (placeDigit 7 (placeDigit 7 (runs selectedCommands initial_state))) = 1"
  by code_simp

text \<open>
  C2, amended. On a game that is not won, with the selected cell empty and editable, a
  digit from 1 to 9 placed twice in a row, where the first placement does not win the
  game, gives back the board and the correct-answers counter of before; the mistakes
  counter is as before when the digit is the solution's, and one higher when it is not.
\<close>

theorem toggle_twice:
  assumes "board s = Some b" and "initialBoard s = Some ini" and "solution s = Some sol"
    and "selectedCell s = Some (r, c)" and "grid9 b" and "r < 9" and "c < 9"
    and "b ! r ! c = 0" and "ini ! r ! c = 0" and "\<not> isWon s"
    and "1 \<le> d" and "d \<le> 9" and "0 \<le> correctAnswers s"
    and "\<not> isWon (placeDigit d s)"
  shows "board (placeDigit d (placeDigit d s)) = Some b
         \<and> correctAnswers (placeDigit d (placeDigit d s)) = correctAnswers s
         \<and> mistakes (placeDigit d (placeDigit d s)) =
             (if sol ! r ! c = d then mistakes s else mistakes s + 1)"
proof -
  from assms(11) have d0: "d \<noteq> 0" by simp
  with assms(8) have ne: "b ! r ! c \<noteq> d" by simp
  from assms(5,6,7) have rng: "r < length b" "c < length (b ! r)"
    by (simp_all add: grid9_nth) (simp add: grid9_def)
  note first = placeDigit_unfold [OF assms(1,4,2,3,10,9) d0]
  from first(1) ne have b1: "board (placeDigit d s) = Some (setCell b r c d)" by simp
  from rng have cell: "setCell b r c d ! r ! c = d" by (rule setCell_same)
  note second = placeDigit_unfold [OF b1 first(5,6,7) assms(14,9) d0]
  from second(1) cell rng(1) assms(8)
  have "board (placeDigit d (placeDigit d s)) = Some b"
    by (simp add: setCell_twice setCell_idle)
  moreover from second(2) first(2) cell ne assms(13)
  have "correctAnswers (placeDigit d (placeDigit d s)) = correctAnswers s" by simp
  moreover from second(3) first(3) cell ne
  have "mistakes (placeDigit d (placeDigit d s)) =
          (if sol ! r ! c = d then mistakes s else mistakes s + 1)" by simp
  ultimately show ?thesis by blast
qed

theorem toggle_twice_witness:
  "board (runs selectedCommands initial_state) = Some demoPuzzle2
   \<and> initialBoard (runs selectedCommands initial_state) = Some demoPuzzle2
   \<and> solution (runs selectedCommands initial_state) = Some demoSolution
   \<and> selectedCell (runs selectedCommands initial_state) = Some (0, 2)
   \<and> grid9 demoPuzzle2 \<and> demoPuzzle2 ! 0 ! 2 = 0
   \<and> \<not> isWon (runs selectedCommands initial_state)
   \<and> 0 \<le> correctAnswers (runs selectedCommands initial_state)
   \<and> \<not> isWon (placeDigit 4 (runs selectedCommands initial_state))
   \<and> board (placeDigit 4 (placeDigit 4 (runs selectedCommands initial_state))) = Some demoPuzzle2
   \<and> correctAnswers (placeDigit 4 (placeDigit 4 (runs selectedCommands initial_state))) =
       correctAnswers (runs selectedCommands initial_state)
   \<and> mistakes (placeDigit 4 (placeDigit 4 (runs selectedCommands initial_state))) =
       mistakes (runs selectedCommands initial_state)"
proof -
  have h1: "board (runs selectedCommands initial_state) = Some demoPuzzle2" by code_simp
  have h2: "initialBoard (runs selectedCommands initial_state) = Some demoPuzzle2" by code_simp
  have h3: "solution (runs selectedCommands initial_state) = Some demoSolution" by code_simp
  have h4: "selectedCell (runs selectedCommands initial_state) = Some (0, 2)" by code_simp
  have h5: "grid9 demoPuzzle2" by code_simp
  have h6: "demoPuzzle2 ! 0 ! 2 = 0" by code_simp
  have h7: "\<not> isWon (runs selectedCommands initial_state)" by code_simp
  have h8: "0 \<le> correctAnswers (runs selectedCommands initial_state)" by code_simp
  have h9: "\<not> isWon (placeDigit 4 (runs selectedCommands initial_state))" by code_simp
  have h10: "demoSolution ! 0 ! 2 = 4" by code_simp
  from toggle_twice [OF h1 h2 h3 h4 h5 _ _ h6 h6 h7 _ _ h8 h9] h10
  have "board (placeDigit 4 (placeDigit 4 (runs selectedCommands initial_state))) = Some demoPuzzle2
   \<and> correctAnswers (placeDigit 4 (placeDigit 4 (runs selectedCommands initial_state))) =
       correctAnswers (runs selectedCommands initial_state)
   \<and> mistakes (placeDigit 4 (placeDigit 4 (runs selectedCommands initial_state))) =
       mistakes (runs selectedCommands initial_state)"
    by simp
  with h1 h2 h3 h4 h5 h6 h7 h8 h9 show ?thesis by blast
qed

text \<open>
  C9. The code counts the same cell's correct answer more than once. After 4, the
  solution's digit, is placed in the cell (0, 2) and counted, placing 7 overwrites the
  cell with no toggle-clear in between and does not take the point back, and so does
  clearing the cell with Backspace; placing 4 again counts the cell a second time. Only
  the toggle, placing 4 on the 4, takes the point back.
\<close>

theorem correct_cell_overwritten_and_recounted:
  "demoSolution ! 0 ! 2 = 4
   \<and> selectedCell (runs correctCommands initial_state) = Some (0, 2)
   \<and> board (runs correctCommands initial_state) = Some (setCell demoPuzzle2 0 2 4)
   \<and> correctAnswers (runs correctCommands initial_state) = 1
   \<and> board (placeDigit 7 (runs correctCommands initial_state)) = Some (setCell demoPuzzle2 0 2 7)
   \<and> correctAnswers (placeDigit 7 (runs correctCommands initial_state)) = 1
   \<and> mistakes (placeDigit 7 (runs correctCommands initial_state)) = 1
   \<and> correctAnswers (placeDigit 4 (placeDigit 7 (runs correctCommands initial_state))) = 2
   \<and> board (clearCell (runs correctCommands initial_state)) = Some demoPuzzle2
   \<and> correctAnswers (clearCell (runs correctCommands initial_state)) = 1
   \<and> correctAnswers (placeDigit 4 (clearCell (runs correctCommands initial_state))) = 2
   \<and> correctAnswers (placeDigit 4 (runs correctCommands initial_state)) = 0"
  by code_simp

end
